theory Spec2Isabelle
  imports Main "HOL-Library.Word" "HOL-Library.Sublist"
begin

unbundle bit_operations_syntax

section \<open>Python values, exceptions and module namespaces\<close>

text \<open>
  The provider consists of a hook (\<^verbatim>\<open>hooks/flightpath_server.py\<close>) and three operators
  (\<^verbatim>\<open>operators/flightpath_server.py\<close>). Every function of the source becomes a function
  that takes the outside world (connection store, remote server, local files) and returns
  either the raised exception (\<open>Inl\<close>) or the returned value (\<open>Inr\<close>) together with the
  world it leaves behind. Logging calls (\<^verbatim>\<open>self.log.info\<close>) have no effect on any of this
  and are left out, except where evaluating their arguments can raise.

  Strings are lists of characters with code points below 256.
\<close>

type_synonym bytes = "8 word list"

text \<open>
  An exception is its class and its \<^verbatim>\<open>str()\<close>. \<open>RequestException\<close> stands for the
  failures \<^verbatim>\<open>requests.post\<close> raises itself (connection errors, timeouts, invalid URLs);
  \<open>HTTPError\<close> is what \<^verbatim>\<open>raise_for_status\<close> raises. \<open>JSONDecodeError\<close> is
  \<^verbatim>\<open>json.JSONDecodeError\<close> of the standard library, and \<open>RequestsJSONDecodeError\<close> is
  \<^verbatim>\<open>requests.exceptions.JSONDecodeError\<close>, which derives from both
  \<^verbatim>\<open>requests.exceptions.RequestException\<close> and \<^verbatim>\<open>json.JSONDecodeError\<close>.
\<close>

datatype exn_class =
    AirflowException
  | AirflowNotFoundException
  | RequestException
  | HTTPError
  | RequestsJSONDecodeError
  | JSONDecodeError
  | NameError
  | UnboundLocalError
  | AttributeError
  | TypeError
  | ValueError
  | BinasciiError
  | OSError

datatype exn = Exn exn_class string

fun exn_class_of :: "exn \<Rightarrow> exn_class" where
  "exn_class_of (Exn c m) = c"

fun exn_str :: "exn \<Rightarrow> string" where
  "exn_str (Exn c m) = m"

text \<open>The two \<^verbatim>\<open>except\<close> clauses of \<^verbatim>\<open>_call_api\<close> test these two class memberships.\<close>

fun isinstance_RequestException :: "exn \<Rightarrow> bool" where
  "isinstance_RequestException (Exn c m) =
     (c = RequestException \<or> c = HTTPError \<or> c = RequestsJSONDecodeError)"

fun isinstance_JSONDecodeError :: "exn \<Rightarrow> bool" where
  "isinstance_JSONDecodeError (Exn c m) =
     (c = JSONDecodeError \<or> c = RequestsJSONDecodeError)"

text \<open>
  The names each module binds at its top level through its \<^verbatim>\<open>import\<close> statements
  (lines 1-9 of the hook module, lines 1-7 of the operator module) and its class
  statements. A \<^verbatim>\<open>raise AirflowException(...)\<close> first looks the name up in the module:
  where it is not bound, the statement raises \<^verbatim>\<open>NameError\<close> instead.
\<close>

definition hooks_module_names :: "string list" where
  "hooks_module_names =
     [''annotations'', ''json'', ''Any'', ''requests'', ''AirflowException'', ''BaseHook'',
      ''FlightPathServerHook'']"

definition operators_module_names :: "string list" where
  "operators_module_names =
     [''annotations'', ''base64'', ''Any'', ''BaseOperator'', ''FlightPathServerHook'',
      ''FlightPathServerRegisterFileOperator'', ''FlightPathServerRegisterAndRunOperator'',
      ''FlightPathServerPullDataOperator'']"

definition raise_AirflowException :: "string list \<Rightarrow> string \<Rightarrow> exn" where
  "raise_AirflowException module_names msg =
     (if ''AirflowException'' \<in> set module_names then Exn AirflowException msg
      else Exn NameError ''name 'AirflowException' is not defined'')"

text \<open>
  JSON values as \<^verbatim>\<open>response.json()\<close> returns them: \<^verbatim>\<open>None\<close>, \<^verbatim>\<open>bool\<close>, \<^verbatim>\<open>int\<close>,
  \<^verbatim>\<open>str\<close>, \<^verbatim>\<open>list\<close> and \<^verbatim>\<open>dict\<close> (the items of the dict, keys distinct). Floating
  point numbers are not modelled.
\<close>

datatype json =
    JNull
  | JBool bool
  | JInt int
  | JString string
  | JArray "json list"
  | JObject "(string \<times> json) list"

text \<open>Python's truth value, as \<^verbatim>\<open>if not x\<close> tests it.\<close>

fun truthy :: "json \<Rightarrow> bool" where
  "truthy JNull = False"
| "truthy (JBool b) = b"
| "truthy (JInt n) = (n \<noteq> 0)"
| "truthy (JString s) = (s \<noteq> [])"
| "truthy (JArray xs) = (xs \<noteq> [])"
| "truthy (JObject kvs) = (kvs \<noteq> [])"

fun truthy_str :: "string option \<Rightarrow> bool" where
  "truthy_str None = False"
| "truthy_str (Some s) = (s \<noteq> [])"

fun py_type_name :: "json \<Rightarrow> string" where
  "py_type_name JNull = ''NoneType''"
| "py_type_name (JBool b) = ''bool''"
| "py_type_name (JInt n) = ''int''"
| "py_type_name (JString s) = ''str''"
| "py_type_name (JArray xs) = ''list''"
| "py_type_name (JObject kvs) = ''dict''"

text \<open>
  \<^verbatim>\<open>response.get(key)\<close>: on a dict the value or \<^verbatim>\<open>None\<close>; any other JSON value has no
  method \<^verbatim>\<open>get\<close>.
\<close>

fun py_get :: "json \<Rightarrow> string \<Rightarrow> exn + json" where
  "py_get (JObject kvs) k = Inr (case map_of kvs k of None \<Rightarrow> JNull | Some v \<Rightarrow> v)"
| "py_get v k =
     Inl (Exn AttributeError
            ([CHR 0x27] @ py_type_name v @ [CHR 0x27] @ '' object has no attribute ''
               @ [CHR 0x27] @ ''get'' @ [CHR 0x27]))"

text \<open>\<^verbatim>\<open>str(n)\<close> for a non-negative integer.\<close>

fun str_nat :: "nat \<Rightarrow> string" where
  "str_nat n =
     (if n < 10 then [''0123456789'' ! n]
      else str_nat (n div 10) @ [''0123456789'' ! (n mod 10)])"

declare str_nat.simps [simp del]

section \<open>\<^verbatim>\<open>json.dumps\<close> of a request payload\<close>

text \<open>
  A request payload is a dict from strings to strings, in insertion order (the order
  \<^verbatim>\<open>json.dumps\<close> writes it in). \<^verbatim>\<open>data[k] = v\<close> replaces the value of a key that is there
  and appends a new key at the end.
\<close>

type_synonym payload = "(string \<times> string) list"

definition dict_set :: "payload \<Rightarrow> string \<Rightarrow> string \<Rightarrow> payload" where
  "dict_set d k v =
     (if k \<in> fst ` set d then map (\<lambda>(k', v'). if k' = k then (k', v) else (k', v')) d
      else d @ [(k, v)])"

definition hex_digit :: "nat \<Rightarrow> char" where
  "hex_digit d = ''0123456789abcdef'' ! d"

text \<open>
  \<^verbatim>\<open>json.dumps\<close> with its default \<^verbatim>\<open>ensure_ascii=True\<close>: the quote and the backslash are
  escaped, the five short escapes are used, every other character outside
  \<^verbatim>\<open>' '..'~'\<close> becomes \<^verbatim>\<open>\uXXXX\<close>.
\<close>

definition escape_char :: "char \<Rightarrow> string" where
  "escape_char c =
     (let n = (of_char c :: nat) in
      if n = 34 then [CHR 0x5C, CHR 0x22]
      else if n = 92 then [CHR 0x5C, CHR 0x5C]
      else if n = 10 then [CHR 0x5C, CHR ''n'']
      else if n = 13 then [CHR 0x5C, CHR ''r'']
      else if n = 9 then [CHR 0x5C, CHR ''t'']
      else if n = 12 then [CHR 0x5C, CHR ''f'']
      else if n = 8 then [CHR 0x5C, CHR ''b'']
      else if 32 \<le> n \<and> n \<le> 126 then [c]
      else [CHR 0x5C, CHR ''u'', CHR ''0'', CHR ''0'', hex_digit (n div 16), hex_digit (n mod 16)])"

definition py_encode_basestring_ascii :: "string \<Rightarrow> string" where
  "py_encode_basestring_ascii s = [CHR 0x22] @ concat (map escape_char s) @ [CHR 0x22]"

fun json_dumps_items :: "payload \<Rightarrow> string" where
  "json_dumps_items [] = []"
| "json_dumps_items [(k, v)] =
     py_encode_basestring_ascii k @ '': '' @ py_encode_basestring_ascii v"
| "json_dumps_items ((k, v) # kvs) =
     py_encode_basestring_ascii k @ '': '' @ py_encode_basestring_ascii v @ '', ''
       @ json_dumps_items kvs"

definition json_dumps :: "payload option \<Rightarrow> string" where
  "json_dumps data =
     (case data of None \<Rightarrow> ''null'' | Some d \<Rightarrow> ''{'' @ json_dumps_items d @ ''}'')"

section \<open>The outside world\<close>

text \<open>
  A connection of the configuration store: \<^verbatim>\<open>conn.host\<close> and \<^verbatim>\<open>conn.password\<close>, each
  \<^verbatim>\<open>None\<close> or a string.
\<close>

record connection =
  host :: "string option"
  password :: "string option"

record http_request =
  rq_url :: string
  rq_headers :: "(string \<times> string) list"
  rq_data :: string

text \<open>
  A response of \<^verbatim>\<open>requests\<close>: \<open>resp_text\<close> is \<^verbatim>\<open>response.text\<close>, and \<open>json_result\<close> is
  what \<^verbatim>\<open>response.json()\<close> does with that text, the parsed value or the decode error
  raised. The parser itself belongs to the library and is not modelled.
\<close>

record http_response =
  status_code :: nat
  reason :: string
  url :: string
  resp_text :: string
  json_result :: "exn + json"

text \<open>
  \<open>server\<close> answers a call of \<^verbatim>\<open>requests.post\<close>: \<open>Inl msg\<close> when the call raises a
  \<^verbatim>\<open>RequestException\<close> whose text is \<open>msg\<close>, \<open>Inr r\<close> when it returns the response \<open>r\<close>.
  \<open>posts\<close> records every call of \<^verbatim>\<open>requests.post\<close>, oldest first. \<open>files\<close> is the
  local file system, and \<open>can_open\<close> says for which paths \<^verbatim>\<open>open(path, "wb")\<close> succeeds.
\<close>

record world =
  connections :: "string \<Rightarrow> connection option"
  server :: "http_request \<Rightarrow> string + http_response"
  posts :: "http_request list"
  files :: "string \<Rightarrow> bytes option"
  can_open :: "string \<Rightarrow> bool"

definition get_connection :: "string \<Rightarrow> world \<Rightarrow> exn + connection" where
  "get_connection conn_id w =
     (case connections w conn_id of
        None \<Rightarrow>
          Inl (Exn AirflowNotFoundException (''The conn_id `'' @ conn_id @ ''` isn't defined''))
      | Some c \<Rightarrow> Inr c)"

definition requests_post ::
  "string \<Rightarrow> (string \<times> string) list \<Rightarrow> string \<Rightarrow> world \<Rightarrow> (exn + http_response) \<times> world" where
  "requests_post u hdrs body w =
     (let rq = \<lparr>rq_url = u, rq_headers = hdrs, rq_data = body\<rparr>;
          w' = w\<lparr>posts := posts w @ [rq]\<rparr>
      in case server w rq of
           Inl msg \<Rightarrow> (Inl (Exn RequestException msg), w')
         | Inr r \<Rightarrow> (Inr r, w'))"

text \<open>
  \<^verbatim>\<open>response.raise_for_status()\<close>: an \<^verbatim>\<open>HTTPError\<close> for the statuses 400 to 599, nothing
  for any other status.
\<close>

definition http_error_msg :: "http_response \<Rightarrow> string" where
  "http_error_msg r =
     (if 400 \<le> status_code r \<and> status_code r < 500 then
        str_nat (status_code r) @ '' Client Error: '' @ reason r @ '' for url: '' @ url r
      else if 500 \<le> status_code r \<and> status_code r < 600 then
        str_nat (status_code r) @ '' Server Error: '' @ reason r @ '' for url: '' @ url r
      else [])"

definition raise_for_status :: "http_response \<Rightarrow> exn option" where
  "raise_for_status r =
     (if http_error_msg r \<noteq> [] then Some (Exn HTTPError (http_error_msg r)) else None)"

text \<open>
  \<^verbatim>\<open>open(path, "wb")\<close> creates the file or empties it, or raises \<^verbatim>\<open>OSError\<close> (the text of
  the error is the operating system's; the one here stands for it). \<^verbatim>\<open>f.write\<close> appends
  to what the open file holds.
\<close>

definition open_wb :: "string \<Rightarrow> world \<Rightarrow> exn + world" where
  "open_wb path w =
     (if can_open w path then Inr (w\<lparr>files := (files w)(path \<mapsto> [])\<rparr>)
      else Inl (Exn OSError (''cannot open '' @ path)))"

definition file_write :: "string \<Rightarrow> bytes \<Rightarrow> world \<Rightarrow> world" where
  "file_write path content w =
     w\<lparr>files := (files w)(path \<mapsto> (case files w path of None \<Rightarrow> [] | Some old \<Rightarrow> old) @ content)\<rparr>"

section \<open>The hook: \<^verbatim>\<open>FlightPathServerHook\<close>\<close>

definition default_conn_name :: string where
  "default_conn_name = ''flightpath_server_default''"

record hook =
  flightpath_server_conn_id :: string
  conn :: connection
  base_url :: string
  api_key :: string
  headers :: "(string \<times> string) list"

text \<open>
  \<^verbatim>\<open>__init__\<close> (lines 24-40). The argument is \<open>None\<close> when the caller leaves the
  connection id out, and the default applies. \<^verbatim>\<open>not self.base_url\<close> holds for \<^verbatim>\<open>None\<close> and
  for the empty string.
\<close>

definition FlightPathServerHook_init :: "string option \<Rightarrow> world \<Rightarrow> exn + hook" where
  "FlightPathServerHook_init conn_id_arg w =
     (let conn_id = (case conn_id_arg of None \<Rightarrow> default_conn_name | Some c \<Rightarrow> c) in
      case get_connection conn_id w of
        Inl e \<Rightarrow> Inl e
      | Inr c \<Rightarrow>
          if \<not> truthy_str (host c) then
            Inl (raise_AirflowException hooks_module_names
                   ''FlightPath Server base URL not found in connection.'')
          else if \<not> truthy_str (password c) then
            Inl (raise_AirflowException hooks_module_names
                   ''FlightPath Server API key not found in connection (password field).'')
          else
            Inr \<lparr>flightpath_server_conn_id = conn_id,
                 conn = c,
                 base_url = the (host c),
                 api_key = the (password c),
                 headers = [(''access_token'', the (password c)),
                            (''Content-Type'', ''application/json''),
                            (''Accept'', ''application/json'')]\<rparr>)"

text \<open>
  The \<^verbatim>\<open>try\<close> block of \<^verbatim>\<open>_call_api\<close> (lines 56-62). An exception leaves the block together
  with the local variable \<^verbatim>\<open>response\<close>, which is bound only once \<^verbatim>\<open>requests.post\<close> has
  returned.
\<close>

definition call_api_try ::
  "hook \<Rightarrow> string \<Rightarrow> string \<Rightarrow> payload option \<Rightarrow> world
     \<Rightarrow> ((exn \<times> http_response option) + json) \<times> world" where
  "call_api_try self u method data w =
     (if method = ''POST'' then
        (case requests_post u (headers self) (json_dumps data) w of
           (Inl e, w') \<Rightarrow> (Inl (e, None), w')
         | (Inr response, w') \<Rightarrow>
             (case raise_for_status response of
                Some e \<Rightarrow> (Inl (e, Some response), w')
              | None \<Rightarrow>
                  (case json_result response of
                     Inl e \<Rightarrow> (Inl (e, Some response), w')
                   | Inr v \<Rightarrow> (Inr v, w'))))
      else
        (Inl (raise_AirflowException hooks_module_names (''Unsupported HTTP method: '' @ method),
              None), w))"

text \<open>
  \<^verbatim>\<open>_call_api\<close> (lines 42-66): the \<^verbatim>\<open>try\<close> block, then the two \<^verbatim>\<open>except\<close> clauses in
  their order. An exception neither clause matches propagates unchanged.
\<close>

definition call_api ::
  "hook \<Rightarrow> string \<Rightarrow> string \<Rightarrow> payload option \<Rightarrow> world \<Rightarrow> (exn + json) \<times> world" where
  "call_api self endpoint method data w =
     (let u = base_url self @ endpoint in
      case call_api_try self u method data w of
        (Inr v, w') \<Rightarrow> (Inr v, w')
      | (Inl (e, response), w') \<Rightarrow>
          if isinstance_RequestException e then
            (Inl (raise_AirflowException hooks_module_names
                    (''FlightPath Server API call failed: '' @ exn_str e)), w')
          else if isinstance_JSONDecodeError e then
            (case response of
               None \<Rightarrow>
                 (Inl (Exn UnboundLocalError
                         ''cannot access local variable 'response' where it is not associated with a value''),
                  w')
             | Some r \<Rightarrow>
                 (Inl (raise_AirflowException hooks_module_names
                         (''Failed to decode JSON response from FlightPath Server: '' @ exn_str e
                            @ '', Response: '' @ resp_text r)), w'))
          else (Inl e, w'))"

text \<open>
  The payloads of the four methods (lines 84-90, 116-126, 137-140, 151-154). An optional
  template is \<open>None\<close> for Python's \<^verbatim>\<open>None\<close>; \<^verbatim>\<open>if template:\<close> is false for \<^verbatim>\<open>None\<close> and for
  the empty string.
\<close>

definition register_file_data ::
  "string \<Rightarrow> string \<Rightarrow> string \<Rightarrow> string option \<Rightarrow> payload" where
  "register_file_data project_name name file_location template =
     (let data = [(''project_name'', project_name),
                  (''name'', name),
                  (''file_location'', file_location)]
      in if truthy_str template then dict_set data ''template'' (the template) else data)"

definition register_file ::
  "hook \<Rightarrow> string \<Rightarrow> string \<Rightarrow> string \<Rightarrow> string option \<Rightarrow> world \<Rightarrow> (exn + json) \<times> world" where
  "register_file self project_name name file_location template w =
     call_api self ''/csvpath/register_file'' ''POST''
       (Some (register_file_data project_name name file_location template)) w"

text \<open>
  \<^verbatim>\<open>register_and_run\<close>: the argument \<open>method_arg\<close> is \<open>None\<close> when the caller does not
  supply \<^verbatim>\<open>method\<close>, and then the default of line 99 applies.
\<close>

definition register_and_run_data ::
  "string \<Rightarrow> string \<Rightarrow> string \<Rightarrow> string \<Rightarrow> string option \<Rightarrow> string option \<Rightarrow> string option
     \<Rightarrow> payload" where
  "register_and_run_data project_name file_location file_name csvpaths_group_name method_arg
       file_template run_template =
     (let method = (case method_arg of None \<Rightarrow> ''collect_paths'' | Some m \<Rightarrow> m);
          data = [(''project_name'', project_name),
                  (''file_location'', file_location),
                  (''file_name'', file_name),
                  (''csvpaths_group_name'', csvpaths_group_name),
                  (''method'', method)];
          data1 = (if truthy_str file_template
                   then dict_set data ''file_template'' (the file_template) else data);
          data2 = (if truthy_str run_template
                   then dict_set data1 ''run_template'' (the run_template) else data1)
      in data2)"

definition register_and_run ::
  "hook \<Rightarrow> string \<Rightarrow> string \<Rightarrow> string \<Rightarrow> string \<Rightarrow> string option \<Rightarrow> string option
     \<Rightarrow> string option \<Rightarrow> world \<Rightarrow> (exn + json) \<times> world" where
  "register_and_run self project_name file_location file_name csvpaths_group_name method_arg
       file_template run_template w =
     call_api self ''/csvpath/register_and_run'' ''POST''
       (Some (register_and_run_data project_name file_location file_name csvpaths_group_name
                method_arg file_template run_template)) w"

definition find_files_data :: "string \<Rightarrow> string \<Rightarrow> payload" where
  "find_files_data project_name reference =
     [(''project_name'', project_name), (''reference'', reference)]"

definition find_files :: "hook \<Rightarrow> string \<Rightarrow> string \<Rightarrow> world \<Rightarrow> (exn + json) \<times> world" where
  "find_files self project_name reference w =
     call_api self ''/find/find_files'' ''POST'' (Some (find_files_data project_name reference)) w"

definition get_file_data :: "string \<Rightarrow> string \<Rightarrow> payload" where
  "get_file_data project_name reference =
     [(''project_name'', project_name), (''reference'', reference)]"

definition get_file :: "hook \<Rightarrow> string \<Rightarrow> string \<Rightarrow> world \<Rightarrow> (exn + json) \<times> world" where
  "get_file self project_name reference w =
     call_api self ''/find/get_file'' ''POST'' (Some (get_file_data project_name reference)) w"

section \<open>\<^verbatim>\<open>base64.b64decode\<close>\<close>

text \<open>
  The operator module calls \<^verbatim>\<open>base64.b64decode\<close> of the standard library with its
  defaults, so without validation. This is the decoder of CPython 3.11
  (\<^verbatim>\<open>binascii.a2b_base64\<close> with \<^verbatim>\<open>strict_mode\<close> off): characters outside the alphabet are
  skipped, a pad character counts only once two characters of a quad have been read, and
  decoding stops at the pad that completes a quad.
\<close>

definition table_a2b_base64 :: "char \<Rightarrow> 8 word option" where
  "table_a2b_base64 c =
     (let n = (of_char c :: nat) in
      if 65 \<le> n \<and> n \<le> 90 then Some (of_nat (n - 65))
      else if 97 \<le> n \<and> n \<le> 122 then Some (of_nat (n - 71))
      else if 48 \<le> n \<and> n \<le> 57 then Some (of_nat (n + 4))
      else if n = 43 then Some 62
      else if n = 47 then Some 63
      else None)"

fun a2b_base64 :: "string \<Rightarrow> nat \<Rightarrow> 8 word \<Rightarrow> nat \<Rightarrow> bytes \<Rightarrow> exn + bytes" where
  "a2b_base64 [] quad_pos leftchar pads out =
     (if quad_pos \<noteq> 0 then
        (if quad_pos = 1 then
           Inl (Exn BinasciiError
                  (''Invalid base64-encoded string: number of data characters (''
                     @ str_nat (length out div 3 * 4 + 1)
                     @ '') cannot be 1 more than a multiple of 4''))
         else Inl (Exn BinasciiError ''Incorrect padding''))
      else Inr out)"
| "a2b_base64 (c # cs) quad_pos leftchar pads out =
     (if c = CHR ''='' then
        (if 2 \<le> quad_pos then
           (if 4 \<le> quad_pos + (pads + 1) then Inr out
            else a2b_base64 cs quad_pos leftchar (pads + 1) out)
         else a2b_base64 cs quad_pos leftchar pads out)
      else
        (case table_a2b_base64 c of
           None \<Rightarrow> a2b_base64 cs quad_pos leftchar pads out
         | Some this_ch \<Rightarrow>
             (if quad_pos = 0 then a2b_base64 cs 1 this_ch 0 out
              else if quad_pos = 1 then
                a2b_base64 cs 2 (this_ch AND 0x0f) 0
                  (out @ [push_bit 2 leftchar OR drop_bit 4 this_ch])
              else if quad_pos = 2 then
                a2b_base64 cs 3 (this_ch AND 0x03) 0
                  (out @ [push_bit 4 leftchar OR drop_bit 2 this_ch])
              else a2b_base64 cs 0 0 0 (out @ [push_bit 6 leftchar OR this_ch]))))"

text \<open>
  \<^verbatim>\<open>base64.b64decode(s)\<close> on a JSON value: a \<^verbatim>\<open>str\<close> is first encoded as ASCII, which
  fails on any other character; any other JSON value is not bytes-like.
\<close>

definition b64decode :: "json \<Rightarrow> exn + bytes" where
  "b64decode v =
     (case v of
        JString s \<Rightarrow>
          if list_ex (\<lambda>c. 128 \<le> (of_char c :: nat)) s then
            Inl (Exn ValueError ''string argument should contain only ASCII characters'')
          else a2b_base64 s 0 0 0 []
      | _ \<Rightarrow>
          Inl (Exn TypeError
                 (''argument should be a bytes-like object or ASCII string, not ''
                    @ [CHR 0x27] @ py_type_name v @ [CHR 0x27])))"

section \<open>The operators\<close>

text \<open>
  Each operator stores its arguments in \<^verbatim>\<open>__init__\<close> and does its work in
  \<^verbatim>\<open>execute\<close>. What \<^verbatim>\<open>BaseOperator\<close> does with the remaining keyword arguments is the
  framework's and is not modelled.
\<close>

record register_and_run_operator =
  rr_project_name :: string
  rr_file_location :: string
  rr_file_name :: string
  rr_csvpaths_group_name :: string
  rr_method :: string
  rr_file_template :: "string option"
  rr_run_template :: "string option"
  rr_flightpath_server_conn_id :: string

text \<open>
  \<^verbatim>\<open>FlightPathServerRegisterAndRunOperator.__init__\<close> (lines 89-110): \<open>method_arg\<close> and
  \<open>conn_id_arg\<close> are \<open>None\<close> when the caller leaves them out.
\<close>

definition FlightPathServerRegisterAndRunOperator_init ::
  "string \<Rightarrow> string \<Rightarrow> string \<Rightarrow> string \<Rightarrow> string option \<Rightarrow> string option \<Rightarrow> string option
     \<Rightarrow> string option \<Rightarrow> register_and_run_operator" where
  "FlightPathServerRegisterAndRunOperator_init project_name file_location file_name
       csvpaths_group_name method_arg file_template run_template conn_id_arg =
     \<lparr>rr_project_name = project_name,
      rr_file_location = file_location,
      rr_file_name = file_name,
      rr_csvpaths_group_name = csvpaths_group_name,
      rr_method = (case method_arg of None \<Rightarrow> ''collect_paths'' | Some m \<Rightarrow> m),
      rr_file_template = file_template,
      rr_run_template = run_template,
      rr_flightpath_server_conn_id =
        (case conn_id_arg of None \<Rightarrow> default_conn_name | Some c \<Rightarrow> c)\<rparr>"

text \<open>
  \<^verbatim>\<open>FlightPathServerRegisterAndRunOperator.execute\<close> (lines 112-134). The closing log call
  evaluates \<^verbatim>\<open>response.get(...)\<close> twice, which raises when the response is not a dict.
\<close>

definition FlightPathServerRegisterAndRunOperator_execute ::
  "register_and_run_operator \<Rightarrow> world \<Rightarrow> (exn + json) \<times> world" where
  "FlightPathServerRegisterAndRunOperator_execute self w =
     (case FlightPathServerHook_init (Some (rr_flightpath_server_conn_id self)) w of
        Inl e \<Rightarrow> (Inl e, w)
      | Inr hook \<Rightarrow>
          (case register_and_run hook (rr_project_name self) (rr_file_location self)
                  (rr_file_name self) (rr_csvpaths_group_name self) (Some (rr_method self))
                  (rr_file_template self) (rr_run_template self) w of
             (Inl e, w') \<Rightarrow> (Inl e, w')
           | (Inr response, w') \<Rightarrow>
               (case py_get response ''register_reference'' of
                  Inl e \<Rightarrow> (Inl e, w')
                | Inr register_reference \<Rightarrow>
                    (case py_get response ''run_reference'' of
                       Inl e \<Rightarrow> (Inl e, w')
                     | Inr run_reference \<Rightarrow> (Inr response, w')))))"

record pull_data_operator =
  pd_project_name :: string
  pd_reference :: string
  pd_output_path :: string
  pd_flightpath_server_conn_id :: string

definition FlightPathServerPullDataOperator_init ::
  "string \<Rightarrow> string \<Rightarrow> string \<Rightarrow> string option \<Rightarrow> pull_data_operator" where
  "FlightPathServerPullDataOperator_init project_name reference output_path conn_id_arg =
     \<lparr>pd_project_name = project_name,
      pd_reference = reference,
      pd_output_path = output_path,
      pd_flightpath_server_conn_id =
        (case conn_id_arg of None \<Rightarrow> default_conn_name | Some c \<Rightarrow> c)\<rparr>"

text \<open>
  \<^verbatim>\<open>FlightPathServerPullDataOperator.execute\<close> (lines 169-189). The \<^verbatim>\<open>raise\<close> of line 182
  is a statement of the operator module, so the name \<^verbatim>\<open>AirflowException\<close> is looked up
  among the names of that module.
\<close>

definition FlightPathServerPullDataOperator_execute ::
  "pull_data_operator \<Rightarrow> world \<Rightarrow> (exn + string) \<times> world" where
  "FlightPathServerPullDataOperator_execute self w =
     (case FlightPathServerHook_init (Some (pd_flightpath_server_conn_id self)) w of
        Inl e \<Rightarrow> (Inl e, w)
      | Inr hook \<Rightarrow>
          (case get_file hook (pd_project_name self) (pd_reference self) w of
             (Inl e, w1) \<Rightarrow> (Inl e, w1)
           | (Inr response, w1) \<Rightarrow>
               (case py_get response ''file'' of
                  Inl e \<Rightarrow> (Inl e, w1)
                | Inr file_content_base64 \<Rightarrow>
                    if \<not> truthy file_content_base64 then
                      (Inl (raise_AirflowException operators_module_names
                              ''No file content received from FlightPath Server.''), w1)
                    else
                      (case b64decode file_content_base64 of
                         Inl e \<Rightarrow> (Inl e, w1)
                       | Inr file_content \<Rightarrow>
                           (case open_wb (pd_output_path self) w1 of
                              Inl e \<Rightarrow> (Inl e, w1)
                            | Inr w2 \<Rightarrow>
                                (Inr (pd_output_path self),
                                 file_write (pd_output_path self) file_content w2))))))"

section \<open>Fixtures of the repository's tests\<close>

text \<open>
  The connection, the operators and the responses the tests of the repository set up
  (\<^verbatim>\<open>tests/hooks/test_flightpath_server_hook.py\<close>,
  \<^verbatim>\<open>tests/operators/test_flightpath_server_operator.py\<close>).
\<close>

definition test_connection :: connection where
  "test_connection = \<lparr>host = Some ''http://localhost:8000'', password = Some ''test_api_key''\<rparr>"

definition test_response :: "nat \<Rightarrow> string \<Rightarrow> string \<Rightarrow> exn + json \<Rightarrow> http_response" where
  "test_response st rsn txt js =
     \<lparr>status_code = st, reason = rsn, url = ''http://localhost:8000/find/get_file'',
      resp_text = txt, json_result = js\<rparr>"

text \<open>A response with status 200 whose body is the empty JSON object.\<close>

definition empty_object_response :: http_response where
  "empty_object_response = test_response 200 ''OK'' ''{}'' (Inr (JObject []))"

definition test_world :: "http_response \<Rightarrow> world" where
  "test_world r =
     \<lparr>connections = (\<lambda>cid. if cid = ''flightpath_server_default'' then Some test_connection else None),
      server = (\<lambda>rq. Inr r),
      posts = [],
      files = (\<lambda>p. None),
      can_open = (\<lambda>p. True)\<rparr>"

definition test_hook :: hook where
  "test_hook =
     \<lparr>flightpath_server_conn_id = ''flightpath_server_default'',
      conn = test_connection,
      base_url = ''http://localhost:8000'',
      api_key = ''test_api_key'',
      headers = [(''access_token'', ''test_api_key''),
                 (''Content-Type'', ''application/json''),
                 (''Accept'', ''application/json'')]\<rparr>"

definition test_pull_data :: pull_data_operator where
  "test_pull_data =
     FlightPathServerPullDataOperator_init ''test_project'' ''file_ref_xyz''
       ''/tmp/test_output.txt'' None"

text \<open>The request line 57 hands to \<^verbatim>\<open>requests.post\<close>.\<close>

definition sent_request :: "hook \<Rightarrow> string \<Rightarrow> payload option \<Rightarrow> http_request" where
  "sent_request self endpoint data =
     \<lparr>rq_url = base_url self @ endpoint, rq_headers = headers self, rq_data = json_dumps data\<rparr>"

section \<open>Facts about the call primitive\<close>

lemma raise_in_hooks_module [simp]:
  "raise_AirflowException hooks_module_names msg = Exn AirflowException msg"
  by (simp add: raise_AirflowException_def hooks_module_names_def)

lemma raise_in_operators_module [simp]:
  "raise_AirflowException operators_module_names msg =
     Exn NameError ''name 'AirflowException' is not defined''"
  by (simp add: raise_AirflowException_def operators_module_names_def)

lemma str_nat_not_empty [simp]: "str_nat n \<noteq> []"
  by (subst str_nat.simps) simp

lemma raise_for_status_iff:
  "raise_for_status r =
     (if 400 \<le> status_code r \<and> status_code r < 600 then Some (Exn HTTPError (http_error_msg r))
      else None)"
  by (auto simp add: raise_for_status_def http_error_msg_def)

text \<open>What a \<^verbatim>\<open>POST\<close> through \<^verbatim>\<open>_call_api\<close> does, case by case.\<close>

lemma call_api_POST:
  "call_api self endpoint ''POST'' data w =
     (let w' = w\<lparr>posts := posts w @ [sent_request self endpoint data]\<rparr> in
      case server w (sent_request self endpoint data) of
        Inl msg \<Rightarrow> (Inl (Exn AirflowException (''FlightPath Server API call failed: '' @ msg)), w')
      | Inr r \<Rightarrow>
          if 400 \<le> status_code r \<and> status_code r < 600 then
            (Inl (Exn AirflowException
                    (''FlightPath Server API call failed: '' @ http_error_msg r)), w')
          else
            (case json_result r of
               Inr v \<Rightarrow> (Inr v, w')
             | Inl e \<Rightarrow>
                 if isinstance_RequestException e then
                   (Inl (Exn AirflowException
                           (''FlightPath Server API call failed: '' @ exn_str e)), w')
                 else if isinstance_JSONDecodeError e then
                   (Inl (Exn AirflowException
                           (''Failed to decode JSON response from FlightPath Server: ''
                              @ exn_str e @ '', Response: '' @ resp_text r)), w')
                 else (Inl e, w')))"
  by (simp add: call_api_def call_api_try_def requests_post_def sent_request_def
        raise_for_status_iff Let_def split: sum.splits)

lemma call_api_posts:
  "posts (snd (call_api self endpoint ''POST'' data w)) =
     posts w @ [sent_request self endpoint data]"
  by (simp add: call_api_POST Let_def split: sum.splits)

lemma call_api_files:
  "files (snd (call_api self endpoint method data w)) = files w"
  by (simp add: call_api_def call_api_try_def requests_post_def Let_def
        split: sum.splits option.splits prod.splits)

section \<open>Unsupported HTTP methods\<close>

text \<open>
  C10. Called with a method other than \<^verbatim>\<open>"POST"\<close>, \<^verbatim>\<open>_call_api\<close> raises
  \<^verbatim>\<open>AirflowException("Unsupported HTTP method: ...")\<close>, which neither \<^verbatim>\<open>except\<close> clause
  catches, and leaves the world as it was: \<^verbatim>\<open>requests.post\<close> is not called.
\<close>

theorem call_api_unsupported_method:
  "method \<noteq> ''POST'' \<Longrightarrow>
     call_api self endpoint method data w =
       (Inl (Exn AirflowException (''Unsupported HTTP method: '' @ method)), w)"
  by (simp add: call_api_def call_api_try_def)

theorem call_api_unsupported_method_witness:
  "''GET'' \<noteq> ''POST'' \<and>
   call_api test_hook ''/find/get_file'' ''GET'' None (test_world empty_object_response) =
     (Inl (Exn AirflowException ''Unsupported HTTP method: GET''),
      test_world empty_object_response) \<and>
   posts (snd (call_api test_hook ''/find/get_file'' ''GET'' None
                 (test_world empty_object_response))) = []"
  using call_api_unsupported_method
          [of "''GET''" test_hook "''/find/get_file''" None "test_world empty_object_response"]
  by (simp add: test_world_def)

section \<open>Construction of the hook\<close>

text \<open>
  C7. For a connection the store knows, constructing the hook raises
  \<^verbatim>\<open>AirflowException\<close> when the host is \<^verbatim>\<open>None\<close> or empty, raises it as well when the
  password is \<^verbatim>\<open>None\<close> or empty, and otherwise returns the hook with the base URL, the API
  key and the three headers. A constructor that raises returns no hook, so no API method
  can be called on it.
\<close>

theorem hook_init_configuration:
  assumes "connections w (case conn_id_arg of None \<Rightarrow> default_conn_name | Some i \<Rightarrow> i) = Some c"
  shows "(\<not> truthy_str (host c) \<longrightarrow>
            FlightPathServerHook_init conn_id_arg w =
              Inl (Exn AirflowException ''FlightPath Server base URL not found in connection.''))
       \<and> (truthy_str (host c) \<and> \<not> truthy_str (password c) \<longrightarrow>
            FlightPathServerHook_init conn_id_arg w =
              Inl (Exn AirflowException
                     ''FlightPath Server API key not found in connection (password field).''))
       \<and> (\<forall>u k. host c = Some u \<and> u \<noteq> [] \<and> password c = Some k \<and> k \<noteq> [] \<longrightarrow>
            FlightPathServerHook_init conn_id_arg w =
              Inr \<lparr>flightpath_server_conn_id =
                     (case conn_id_arg of None \<Rightarrow> default_conn_name | Some i \<Rightarrow> i),
                   conn = c, base_url = u, api_key = k,
                   headers = [(''access_token'', k), (''Content-Type'', ''application/json''),
                              (''Accept'', ''application/json'')]\<rparr>)"
  using assms by (simp add: FlightPathServerHook_init_def get_connection_def Let_def)

theorem hook_init_configuration_witness:
  "FlightPathServerHook_init None (test_world empty_object_response) = Inr test_hook
   \<and> FlightPathServerHook_init None
        ((test_world empty_object_response)
           \<lparr>connections := (\<lambda>i. Some \<lparr>host = Some [], password = Some ''test_api_key''\<rparr>)\<rparr>) =
       Inl (Exn AirflowException ''FlightPath Server base URL not found in connection.'')
   \<and> FlightPathServerHook_init None
        ((test_world empty_object_response)
           \<lparr>connections := (\<lambda>i. Some \<lparr>host = Some ''http://localhost:8000'', password = None\<rparr>)\<rparr>) =
       Inl (Exn AirflowException
              ''FlightPath Server API key not found in connection (password field).'')"
  using hook_init_configuration [of "test_world empty_object_response" None test_connection]
    hook_init_configuration
      [of "(test_world empty_object_response)
             \<lparr>connections := (\<lambda>i. Some \<lparr>host = Some [], password = Some ''test_api_key''\<rparr>)\<rparr>"
          None "\<lparr>host = Some [], password = Some ''test_api_key''\<rparr>"]
    hook_init_configuration
      [of "(test_world empty_object_response)
             \<lparr>connections := (\<lambda>i. Some \<lparr>host = Some ''http://localhost:8000'', password = None\<rparr>)\<rparr>"
          None "\<lparr>host = Some ''http://localhost:8000'', password = None\<rparr>"]
  by (simp add: test_world_def test_connection_def test_hook_def default_conn_name_def)

section \<open>Request payloads\<close>

lemma register_file_data_keys:
  "map fst (register_file_data p n l t) =
     (if truthy_str t then [''project_name'', ''name'', ''file_location'', ''template'']
      else [''project_name'', ''name'', ''file_location''])"
  by (simp add: register_file_data_def dict_set_def)

lemma register_and_run_data_items:
  "register_and_run_data p l f g m ft rt =
     [(''project_name'', p), (''file_location'', l), (''file_name'', f),
      (''csvpaths_group_name'', g),
      (''method'', case m of None \<Rightarrow> ''collect_paths'' | Some x \<Rightarrow> x)]
       @ (if truthy_str ft then [(''file_template'', the ft)] else [])
       @ (if truthy_str rt then [(''run_template'', the rt)] else [])"
  by (simp add: register_and_run_data_def dict_set_def Let_def)

lemma register_and_run_data_keys:
  "map fst (register_and_run_data p l f g m ft rt) =
     [''project_name'', ''file_location'', ''file_name'', ''csvpaths_group_name'', ''method'']
       @ (if truthy_str ft then [''file_template''] else [])
       @ (if truthy_str rt then [''run_template''] else [])"
  by (simp add: register_and_run_data_items)

lemma register_and_run_data_method:
  "map_of (register_and_run_data p l f g m ft rt) ''method'' =
     Some (case m of None \<Rightarrow> ''collect_paths'' | Some x \<Rightarrow> x)"
  by (simp add: register_and_run_data_items)

text \<open>
  C4. With \<^verbatim>\<open>template\<close> omitted the payload of \<^verbatim>\<open>register_file\<close> has no key
  \<^verbatim>\<open>template\<close>, and with \<^verbatim>\<open>file_template\<close> or \<^verbatim>\<open>run_template\<close> omitted the payload of
  \<^verbatim>\<open>register_and_run\<close> has no such key. The serialized payload of \<^verbatim>\<open>register_file\<close> is
  then exactly its three fields, and the body each method posts is the serialization of
  that payload.
\<close>

theorem omitted_optional_fields_absent:
  "''template'' \<notin> set (map fst (register_file_data project name location None))
   \<and> ''file_template'' \<notin> set (map fst (register_and_run_data p l f g m None rt))
   \<and> ''run_template'' \<notin> set (map fst (register_and_run_data p l f g m ft None))
   \<and> json_dumps (Some (register_file_data project name location None)) =
       ''{'' @ py_encode_basestring_ascii ''project_name'' @ '': ''
         @ py_encode_basestring_ascii project
         @ '', '' @ py_encode_basestring_ascii ''name'' @ '': '' @ py_encode_basestring_ascii name
         @ '', '' @ py_encode_basestring_ascii ''file_location'' @ '': ''
         @ py_encode_basestring_ascii location @ ''}''
   \<and> rq_data (last (posts (snd (register_file self project name location None w)))) =
       json_dumps (Some (register_file_data project name location None))
   \<and> rq_data (last (posts (snd (register_and_run self p l f g m ft rt w)))) =
       json_dumps (Some (register_and_run_data p l f g m ft rt))"
  by (simp add: register_file_data_keys register_and_run_data_keys
        register_file_def register_and_run_def call_api_posts sent_request_def)
    (simp add: register_file_data_def json_dumps_def)

theorem omitted_optional_fields_absent_witness:
  \<open>json_dumps (Some (register_file_data ''test_project'' ''test_file.csv'' ''/data/test_file.csv'' None))
     = ''{"project_name": "test_project", "name": "test_file.csv", "file_location": "/data/test_file.csv"}''
   \<and> ''file_template'' \<notin> set (map fst (register_and_run_data ''test_project''
          ''/data/new_file.jsonl'' ''new_file.jsonl'' ''my_pipeline'' None None (Some ''t'')))
   \<and> map fst (register_and_run_data ''test_project'' ''/data/new_file.jsonl'' ''new_file.jsonl''
                 ''my_pipeline'' None None (Some ''t'')) =
       [''project_name'', ''file_location'', ''file_name'', ''csvpaths_group_name'', ''method'',
        ''run_template'']\<close>
  using omitted_optional_fields_absent
          [of "''test_project''" "''test_file.csv''" "''/data/test_file.csv''"
              "''test_project''" "''/data/new_file.jsonl''" "''new_file.jsonl''" "''my_pipeline''"
              None "Some ''t''" None test_hook "test_world empty_object_response"]
  by (simp add: register_and_run_data_keys py_encode_basestring_ascii_def escape_char_def)

section \<open>One request per method\<close>

lemma hook_init_headers:
  assumes "FlightPathServerHook_init conn_id_arg w0 = Inr self"
  shows "headers self = [(''access_token'', api_key self), (''Content-Type'', ''application/json''),
                         (''Accept'', ''application/json'')]"
  using assms
  by (auto simp add: FlightPathServerHook_init_def Let_def split: sum.splits if_splits)

text \<open>
  C5. On a hook that was constructed from a valid connection, each of the four methods
  calls \<^verbatim>\<open>requests.post\<close> exactly once: the log of posts grows by one request, to the
  base URL followed by the fixed path of the method, with the three headers and with the
  serialized payload as body.
\<close>

theorem convenience_methods_post_once:
  assumes "FlightPathServerHook_init conn_id_arg w0 = Inr self"
  shows "posts (snd (register_file self project name location template w)) =
           posts w @ [\<lparr>rq_url = base_url self @ ''/csvpath/register_file'',
                       rq_headers = [(''access_token'', api_key self),
                                     (''Content-Type'', ''application/json''),
                                     (''Accept'', ''application/json'')],
                       rq_data = json_dumps (Some (register_file_data project name location
                                                     template))\<rparr>]
       \<and> posts (snd (register_and_run self p l f g m ft rt w)) =
           posts w @ [\<lparr>rq_url = base_url self @ ''/csvpath/register_and_run'',
                       rq_headers = [(''access_token'', api_key self),
                                     (''Content-Type'', ''application/json''),
                                     (''Accept'', ''application/json'')],
                       rq_data = json_dumps (Some (register_and_run_data p l f g m ft rt))\<rparr>]
       \<and> posts (snd (find_files self fp fr w)) =
           posts w @ [\<lparr>rq_url = base_url self @ ''/find/find_files'',
                       rq_headers = [(''access_token'', api_key self),
                                     (''Content-Type'', ''application/json''),
                                     (''Accept'', ''application/json'')],
                       rq_data = json_dumps (Some (find_files_data fp fr))\<rparr>]
       \<and> posts (snd (get_file self gp gr w)) =
           posts w @ [\<lparr>rq_url = base_url self @ ''/find/get_file'',
                       rq_headers = [(''access_token'', api_key self),
                                     (''Content-Type'', ''application/json''),
                                     (''Accept'', ''application/json'')],
                       rq_data = json_dumps (Some (get_file_data gp gr))\<rparr>]"
  using hook_init_headers [OF assms]
  by (simp add: register_file_def register_and_run_def find_files_def get_file_def
        call_api_posts sent_request_def)

theorem convenience_methods_post_once_witness:
  \<open>FlightPathServerHook_init None (test_world empty_object_response) = Inr test_hook
   \<and> posts (snd (get_file test_hook ''test_project'' ''file_ref_xyz''
                   (test_world empty_object_response))) =
       [\<lparr>rq_url = ''http://localhost:8000/find/get_file'',
         rq_headers = [(''access_token'', ''test_api_key''),
                       (''Content-Type'', ''application/json''),
                       (''Accept'', ''application/json'')],
         rq_data = ''{"project_name": "test_project", "reference": "file_ref_xyz"}''\<rparr>]
   \<and> posts (snd (register_and_run test_hook ''test_project'' ''/data/new_file.jsonl''
                   ''new_file.jsonl'' ''my_pipeline'' None None None
                   (test_world empty_object_response))) =
       [\<lparr>rq_url = ''http://localhost:8000/csvpath/register_and_run'',
         rq_headers = [(''access_token'', ''test_api_key''),
                       (''Content-Type'', ''application/json''),
                       (''Accept'', ''application/json'')],
         rq_data = ''{"project_name": "test_project", "file_location": "/data/new_file.jsonl", "file_name": "new_file.jsonl", "csvpaths_group_name": "my_pipeline", "method": "collect_paths"}''\<rparr>]\<close>
proof -
  have init: "FlightPathServerHook_init None (test_world empty_object_response) = Inr test_hook"
    by (simp add: FlightPathServerHook_init_def get_connection_def test_world_def
          test_connection_def test_hook_def default_conn_name_def)
  have w: "posts (test_world empty_object_response) = []"
    by (simp add: test_world_def)
  have h: "base_url test_hook = ''http://localhost:8000''" "api_key test_hook = ''test_api_key''"
    by (simp_all add: test_hook_def)
  have d1: \<open>json_dumps (Some (get_file_data ''test_project'' ''file_ref_xyz'')) =
              ''{"project_name": "test_project", "reference": "file_ref_xyz"}''\<close>
    by (simp add: get_file_data_def json_dumps_def py_encode_basestring_ascii_def
          escape_char_def)
  have d2: \<open>json_dumps (Some (register_and_run_data ''test_project'' ''/data/new_file.jsonl''
                ''new_file.jsonl'' ''my_pipeline'' None None None)) =
              ''{"project_name": "test_project", "file_location": "/data/new_file.jsonl", "file_name": "new_file.jsonl", "csvpaths_group_name": "my_pipeline", "method": "collect_paths"}''\<close>
    by (simp add: register_and_run_data_items json_dumps_def py_encode_basestring_ascii_def
          escape_char_def)
  show ?thesis
    using convenience_methods_post_once [OF init,
            where w = "test_world empty_object_response"
              and gp = "''test_project''" and gr = "''file_ref_xyz''"
              and p = "''test_project''" and l = "''/data/new_file.jsonl''"
              and f = "''new_file.jsonl''" and g = "''my_pipeline''"
              and m = None and ft = None and rt = None]
    by (simp add: init w h d1 d2)
qed

section \<open>The default run method\<close>

lemma register_and_run_execute_world:
  assumes "FlightPathServerHook_init (Some (rr_flightpath_server_conn_id self)) w = Inr hook"
  shows "snd (FlightPathServerRegisterAndRunOperator_execute self w) =
           snd (register_and_run hook (rr_project_name self) (rr_file_location self)
                  (rr_file_name self) (rr_csvpaths_group_name self) (Some (rr_method self))
                  (rr_file_template self) (rr_run_template self) w)"
  using assms
  by (simp add: FlightPathServerRegisterAndRunOperator_execute_def
        split: sum.splits prod.splits)

text \<open>
  C8. When \<^verbatim>\<open>method\<close> is not supplied, the payload of \<^verbatim>\<open>register_and_run\<close> maps
  \<^verbatim>\<open>method\<close> to \<^verbatim>\<open>collect_paths\<close>; the key \<^verbatim>\<open>method\<close> is in the payload whatever the
  argument; and the operator, constructed without \<^verbatim>\<open>method\<close>, stores the same default and
  posts the payload the hook builds when \<^verbatim>\<open>method\<close> is left out.
\<close>

theorem register_and_run_default_method:
  "map_of (register_and_run_data p l f g None ft rt) ''method'' = Some ''collect_paths''
   \<and> (\<forall>m. \<exists>v. map_of (register_and_run_data p l f g m ft rt) ''method'' = Some v)
   \<and> rr_method (FlightPathServerRegisterAndRunOperator_init p l f g None ft rt c) =
       ''collect_paths''
   \<and> (\<forall>hook. FlightPathServerHook_init
                 (Some (rr_flightpath_server_conn_id
                          (FlightPathServerRegisterAndRunOperator_init p l f g None ft rt c))) w
               = Inr hook \<longrightarrow>
         map rq_data (posts (snd (FlightPathServerRegisterAndRunOperator_execute
                  (FlightPathServerRegisterAndRunOperator_init p l f g None ft rt c) w))) =
           map rq_data (posts w)
             @ [json_dumps (Some (register_and_run_data p l f g None ft rt))])"
proof -
  have same: "register_and_run_data p l f g (Some ''collect_paths'') ft rt =
              register_and_run_data p l f g None ft rt"
    by (simp add: register_and_run_data_items)
  have fields:
    "rr_project_name (FlightPathServerRegisterAndRunOperator_init p l f g None ft rt c) = p"
    "rr_file_location (FlightPathServerRegisterAndRunOperator_init p l f g None ft rt c) = l"
    "rr_file_name (FlightPathServerRegisterAndRunOperator_init p l f g None ft rt c) = f"
    "rr_csvpaths_group_name (FlightPathServerRegisterAndRunOperator_init p l f g None ft rt c) = g"
    "rr_method (FlightPathServerRegisterAndRunOperator_init p l f g None ft rt c) = ''collect_paths''"
    "rr_file_template (FlightPathServerRegisterAndRunOperator_init p l f g None ft rt c) = ft"
    "rr_run_template (FlightPathServerRegisterAndRunOperator_init p l f g None ft rt c) = rt"
    by (simp_all add: FlightPathServerRegisterAndRunOperator_init_def)
  show ?thesis
    by (simp add: register_and_run_data_method fields register_and_run_execute_world
          register_and_run_def call_api_posts sent_request_def same)
qed

theorem register_and_run_default_method_witness:
  \<open>FlightPathServerHook_init (Some ''flightpath_server_default'')
      (test_world empty_object_response) = Inr test_hook
   \<and> map_of (register_and_run_data ''test_project'' ''/data/new_file.jsonl'' ''new_file.jsonl''
               ''my_pipeline'' (Some ''fast_forward_paths'') None None) ''method'' =
       Some ''fast_forward_paths''
   \<and> map rq_data (posts (snd (FlightPathServerRegisterAndRunOperator_execute
         (FlightPathServerRegisterAndRunOperator_init ''test_project'' ''/data/new_file.jsonl''
            ''new_file.jsonl'' ''my_pipeline'' None None None None)
         (test_world empty_object_response)))) =
       [''{"project_name": "test_project", "file_location": "/data/new_file.jsonl", "file_name": "new_file.jsonl", "csvpaths_group_name": "my_pipeline", "method": "collect_paths"}'']\<close>
proof -
  have init: "FlightPathServerHook_init (Some ''flightpath_server_default'')
                (test_world empty_object_response) = Inr test_hook"
    by (simp add: FlightPathServerHook_init_def get_connection_def test_world_def
          test_connection_def test_hook_def)
  have cid: "rr_flightpath_server_conn_id
               (FlightPathServerRegisterAndRunOperator_init ''test_project''
                  ''/data/new_file.jsonl'' ''new_file.jsonl'' ''my_pipeline'' None None None None)
             = ''flightpath_server_default''"
    by (simp add: FlightPathServerRegisterAndRunOperator_init_def default_conn_name_def)
  have w: "posts (test_world empty_object_response) = []"
    by (simp add: test_world_def)
  have d: \<open>json_dumps (Some (register_and_run_data ''test_project'' ''/data/new_file.jsonl''
                ''new_file.jsonl'' ''my_pipeline'' None None None)) =
              ''{"project_name": "test_project", "file_location": "/data/new_file.jsonl", "file_name": "new_file.jsonl", "csvpaths_group_name": "my_pipeline", "method": "collect_paths"}''\<close>
    by (simp add: register_and_run_data_items json_dumps_def py_encode_basestring_ascii_def
          escape_char_def)
  have m: "map_of (register_and_run_data ''test_project'' ''/data/new_file.jsonl''
             ''new_file.jsonl'' ''my_pipeline'' (Some ''fast_forward_paths'') None None) ''method''
           = Some ''fast_forward_paths''"
    by (simp add: register_and_run_data_method)
  show ?thesis
    using register_and_run_default_method
            [of "''test_project''" "''/data/new_file.jsonl''" "''new_file.jsonl''"
                "''my_pipeline''" None None None "test_world empty_object_response"]
    by (simp add: init cid w d m)
qed

section \<open>Failed calls\<close>

lemma test_world_server [simp]: "server (test_world r) rq = Inr r"
  by (simp add: test_world_def)

lemma test_response_fields [simp]:
  "status_code (test_response st rsn txt js) = st"
  "reason (test_response st rsn txt js) = rsn"
  "url (test_response st rsn txt js) = ''http://localhost:8000/find/get_file''"
  "resp_text (test_response st rsn txt js) = txt"
  "json_result (test_response st rsn txt js) = js"
  by (simp_all add: test_response_def)




text \<open>
  The second \<^verbatim>\<open>except\<close> clause (lines 65-66) is reached by a decode error of the bare
  class \<^verbatim>\<open>json.JSONDecodeError\<close>, which is what the repository's test lets the mocked
  \<^verbatim>\<open>json()\<close> raise: the message then ends with the raw response text.
\<close>

lemma stdlib_decode_error_reaches_second_clause:
  assumes "server w (sent_request self endpoint data) = Inr r"
      and "\<not> (400 \<le> status_code r \<and> status_code r < 600)"
      and "json_result r = Inl (Exn JSONDecodeError m)"
  shows "fst (call_api self endpoint ''POST'' data w) =
           Inl (Exn AirflowException
                  (''Failed to decode JSON response from FlightPath Server: '' @ m
                     @ '', Response: '' @ resp_text r))"
  using assms by (auto simp add: call_api_POST Let_def)

text \<open>
  The first \<^verbatim>\<open>except\<close> clause (lines 63-64) comes before it and takes every
  \<^verbatim>\<open>RequestException\<close>. The decode error \<^verbatim>\<open>response.json()\<close> of \<^verbatim>\<open>requests\<close> raises is of
  the class \<^verbatim>\<open>requests.exceptions.JSONDecodeError\<close>, which is a \<^verbatim>\<open>RequestException\<close> as
  well as a \<^verbatim>\<open>json.JSONDecodeError\<close>: it never reaches the second clause, and the message
  is the one of a failed call.
\<close>

lemma requests_decode_error_caught_first:
  assumes "server w (sent_request self endpoint data) = Inr r"
      and "\<not> (400 \<le> status_code r \<and> status_code r < 600)"
      and "json_result r = Inl (Exn RequestsJSONDecodeError m)"
  shows "fst (call_api self endpoint ''POST'' data w) =
           Inl (Exn AirflowException (''FlightPath Server API call failed: '' @ m))"
  using assms by (auto simp add: call_api_POST Let_def)

text \<open>
  The status is checked before the body is parsed (line 61 before line 62): a response
  with status 500 and an HTML body raises the error of the status.
\<close>

lemma http_error_precedes_decoding:
  "fst (call_api test_hook ''/find/get_file'' ''POST'' None
          (test_world (test_response 500 ''Internal Server Error'' ''<html>oops</html>''
             (Inl (Exn RequestsJSONDecodeError ''Expecting value: line 1 column 1 (char 0)'')))))
     = Inl (Exn AirflowException
              ''FlightPath Server API call failed: 500 Server Error: Internal Server Error for url: http://localhost:8000/find/get_file'')"
  by (simp add: call_api_POST Let_def http_error_msg_def str_nat.simps)

text \<open>
  C1, evaluated on a response with status 200 whose body \<^verbatim>\<open>Invalid JSON response\<close> does
  not parse, so that \<^verbatim>\<open>response.json()\<close> raises \<^verbatim>\<open>requests.exceptions.JSONDecodeError\<close>.
  That error is a \<^verbatim>\<open>json.JSONDecodeError\<close>, but \<^verbatim>\<open>_call_api\<close> raises \<^verbatim>\<open>AirflowException\<close>
  with the message of a failed call, and the raw response text is not in it.
\<close>

theorem undecodable_body_text_lost:
  "isinstance_JSONDecodeError
     (Exn RequestsJSONDecodeError ''Expecting value: line 1 column 1 (char 0)'')
   \<and> fst (call_api test_hook ''/find/get_file'' ''POST''
            (Some (get_file_data ''test_project'' ''file_ref_xyz''))
            (test_world (test_response 200 ''OK'' ''Invalid JSON response''
               (Inl (Exn RequestsJSONDecodeError
                       ''Expecting value: line 1 column 1 (char 0)'')))))
       = Inl (Exn AirflowException
                ''FlightPath Server API call failed: Expecting value: line 1 column 1 (char 0)'')
   \<and> \<not> sublist ''Invalid JSON response''
          ''FlightPath Server API call failed: Expecting value: line 1 column 1 (char 0)''"
  by (simp add: call_api_POST Let_def sublist_code)

section \<open>The pull-data operator\<close>

lemma hook_init_server_update [simp]:
  "FlightPathServerHook_init cid (w\<lparr>server := s\<rparr>) = FlightPathServerHook_init cid w"
  by (simp add: FlightPathServerHook_init_def get_connection_def)

lemma map_of_filter_key [simp]:
  "map_of (filter (\<lambda>kv. fst kv \<noteq> k) kvs) k = None"
  by (induction kvs) auto

lemma get_file_POST:
  "get_file hook p rf w =
     call_api hook ''/find/get_file'' ''POST'' (Some (get_file_data p rf)) w"
  by (simp add: get_file_def)

text \<open>The pull-data operator once the hook exists and the server has answered.\<close>

lemma pull_data_execute_response:
  assumes "FlightPathServerHook_init (Some (pd_flightpath_server_conn_id self)) w = Inr hook"
      and "server w (sent_request hook ''/find/get_file''
             (Some (get_file_data (pd_project_name self) (pd_reference self)))) = Inr r"
      and "\<not> (400 \<le> status_code r \<and> status_code r < 600)"
      and "json_result r = Inr (JObject kvs)"
  shows "FlightPathServerPullDataOperator_execute self w =
           (let w1 = w\<lparr>posts := posts w @ [sent_request hook ''/find/get_file''
                        (Some (get_file_data (pd_project_name self) (pd_reference self)))]\<rparr>;
                v = (case map_of kvs ''file'' of None \<Rightarrow> JNull | Some x \<Rightarrow> x)
            in if \<not> truthy v then
                 (Inl (Exn NameError ''name 'AirflowException' is not defined''), w1)
               else
                 (case b64decode v of
                    Inl e \<Rightarrow> (Inl e, w1)
                  | Inr file_content \<Rightarrow>
                      if can_open w (pd_output_path self) then
                        (Inr (pd_output_path self),
                         w1\<lparr>files := (files w)(pd_output_path self \<mapsto> file_content)\<rparr>)
                      else (Inl (Exn OSError (''cannot open '' @ pd_output_path self)), w1)))"
  using assms
  by (auto simp add: FlightPathServerPullDataOperator_execute_def get_file_POST call_api_POST
        Let_def open_wb_def file_write_def split: sum.splits)

lemma test_world_fields [simp]:
  "posts (test_world r) = []"
  "files (test_world r) = (\<lambda>p. None)"
  "can_open (test_world r) p"
  by (simp_all add: test_world_def)

lemma test_hook_init [simp]:
  "FlightPathServerHook_init (Some ''flightpath_server_default'') (test_world r) = Inr test_hook"
  by (simp add: FlightPathServerHook_init_def get_connection_def test_world_def
        test_connection_def test_hook_def)

lemma test_pull_data_fields [simp]:
  "pd_project_name test_pull_data = ''test_project''"
  "pd_reference test_pull_data = ''file_ref_xyz''"
  "pd_output_path test_pull_data = ''/tmp/test_output.txt''"
  "pd_flightpath_server_conn_id test_pull_data = ''flightpath_server_default''"
  by (simp_all add: test_pull_data_def FlightPathServerPullDataOperator_init_def
        default_conn_name_def)

lemma b64decode_test_content:
  "b64decode (JString ''VGhpcyBpcyBzb21lIHRlc3QgY29udGVudC4='') =
     Inr [84, 104, 105, 115, 32, 105, 115, 32, 115, 111, 109, 101, 32, 116, 101, 115, 116, 32,
          99, 111, 110, 116, 101, 110, 116, 46]"
  by (simp add: b64decode_def table_a2b_base64_def)

lemma empty_object_response_fields [simp]:
  "status_code empty_object_response = 200"
  "json_result empty_object_response = Inr (JObject [])"
  by (simp_all add: empty_object_response_def)

lemma http_error_msg_json_update [simp]:
  "http_error_msg (r\<lparr>json_result := x\<rparr>) = http_error_msg r"
  by (simp add: http_error_msg_def)

lemma pull_data_execute_http_error:
  assumes "FlightPathServerHook_init (Some (pd_flightpath_server_conn_id self)) w = Inr hook"
      and "server w (sent_request hook ''/find/get_file''
             (Some (get_file_data (pd_project_name self) (pd_reference self)))) = Inr r"
      and "400 \<le> status_code r \<and> status_code r < 600"
  shows "FlightPathServerPullDataOperator_execute self w =
           (Inl (Exn AirflowException
                   (''FlightPath Server API call failed: '' @ http_error_msg r)),
            w\<lparr>posts := posts w @ [sent_request hook ''/find/get_file''
                        (Some (get_file_data (pd_project_name self) (pd_reference self)))]\<rparr>)"
  using assms
  by (simp add: FlightPathServerPullDataOperator_execute_def get_file_POST call_api_POST Let_def)

text \<open>
  C3. When the hook can be constructed, the server answers the get-file request with a
  response that is not an HTTP error and whose JSON object has a non-empty string under
  \<^verbatim>\<open>file\<close> that \<^verbatim>\<open>base64.b64decode\<close> accepts, and the output path can be opened for
  writing, the operator returns the output path and leaves the file system as it was
  except that the output path now holds exactly the decoded bytes.
\<close>

theorem pull_data_writes_decoded_bytes:
  assumes "FlightPathServerHook_init (Some (pd_flightpath_server_conn_id self)) w = Inr hook"
      and "server w (sent_request hook ''/find/get_file''
             (Some (get_file_data (pd_project_name self) (pd_reference self)))) = Inr r"
      and "\<not> (400 \<le> status_code r \<and> status_code r < 600)"
      and "json_result r = Inr (JObject kvs)"
      and "map_of kvs ''file'' = Some (JString s)"
      and "s \<noteq> []"
      and "b64decode (JString s) = Inr file_content"
      and "can_open w (pd_output_path self)"
  shows "fst (FlightPathServerPullDataOperator_execute self w) = Inr (pd_output_path self)
       \<and> files (snd (FlightPathServerPullDataOperator_execute self w)) =
           (files w)(pd_output_path self \<mapsto> file_content)"
  using assms(5-8)
  by (simp add: pull_data_execute_response [OF assms(1-4)] Let_def)

theorem pull_data_writes_decoded_bytes_witness:
  \<open>fst (FlightPathServerPullDataOperator_execute test_pull_data
          (test_world (test_response 200 ''OK''
             ''{"file": "VGhpcyBpcyBzb21lIHRlc3QgY29udGVudC4="}''
             (Inr (JObject [(''file'', JString ''VGhpcyBpcyBzb21lIHRlc3QgY29udGVudC4='')])))))
     = Inr ''/tmp/test_output.txt''
   \<and> files (snd (FlightPathServerPullDataOperator_execute test_pull_data
          (test_world (test_response 200 ''OK''
             ''{"file": "VGhpcyBpcyBzb21lIHRlc3QgY29udGVudC4="}''
             (Inr (JObject [(''file'', JString ''VGhpcyBpcyBzb21lIHRlc3QgY29udGVudC4='')]))))))
       ''/tmp/test_output.txt''
     = Some [84, 104, 105, 115, 32, 105, 115, 32, 115, 111, 109, 101, 32, 116, 101, 115, 116, 32,
             99, 111, 110, 116, 101, 110, 116, 46]\<close>
  using pull_data_writes_decoded_bytes
          [where self = test_pull_data and hook = test_hook
             and w = \<open>test_world (test_response 200 ''OK''
                        ''{"file": "VGhpcyBpcyBzb21lIHRlc3QgY29udGVudC4="}''
                        (Inr (JObject [(''file'',
                           JString ''VGhpcyBpcyBzb21lIHRlc3QgY29udGVudC4='')])))\<close>
             and r = \<open>test_response 200 ''OK''
                        ''{"file": "VGhpcyBpcyBzb21lIHRlc3QgY29udGVudC4="}''
                        (Inr (JObject [(''file'',
                           JString ''VGhpcyBpcyBzb21lIHRlc3QgY29udGVudC4='')]))\<close>
             and kvs = "[(''file'', JString ''VGhpcyBpcyBzb21lIHRlc3QgY29udGVudC4='')]"
             and s = "''VGhpcyBpcyBzb21lIHRlc3QgY29udGVudC4=''"
             and file_content = "[84, 104, 105, 115, 32, 105, 115, 32, 115, 111, 109, 101, 32,
                                  116, 101, 115, 116, 32, 99, 111, 110, 116, 101, 110, 116, 46]"]
  by (simp add: b64decode_test_content)

text \<open>
  C2, evaluated on a response without the field \<^verbatim>\<open>file\<close>. Line 182 raises
  \<^verbatim>\<open>AirflowException\<close>, a name the operator module never imports, so what is raised is
  \<^verbatim>\<open>NameError\<close> and not the error of the missing content. No file is written.
\<close>

theorem pull_data_missing_file_name_error:
  "fst (FlightPathServerPullDataOperator_execute test_pull_data
          (test_world empty_object_response))
     = Inl (Exn NameError ''name 'AirflowException' is not defined'')
   \<and> files (snd (FlightPathServerPullDataOperator_execute test_pull_data
          (test_world empty_object_response))) ''/tmp/test_output.txt'' = None"
  by (simp add: pull_data_execute_response
        [where self = test_pull_data and hook = test_hook
           and w = "test_world empty_object_response" and r = empty_object_response
           and kvs = "[]"]
        Let_def)

text \<open>
  C9, as the code has it. When the value under \<^verbatim>\<open>file\<close> is falsy (empty string,
  \<^verbatim>\<open>null\<close>, \<^verbatim>\<open>false\<close>, zero, empty list or object), the operator ends as it does on the
  same response with the field removed: it raises, and the file system is unchanged.
\<close>

theorem falsy_file_same_as_missing:
  assumes "FlightPathServerHook_init (Some (pd_flightpath_server_conn_id self)) w = Inr hook"
      and "server w (sent_request hook ''/find/get_file''
             (Some (get_file_data (pd_project_name self) (pd_reference self)))) = Inr r"
      and "json_result r = Inr (JObject kvs)"
      and "map_of kvs ''file'' = Some v"
      and "\<not> truthy v"
  shows "fst (FlightPathServerPullDataOperator_execute self w) =
           fst (FlightPathServerPullDataOperator_execute self
                  (w\<lparr>server := (\<lambda>rq. Inr (r\<lparr>json_result :=
                         Inr (JObject (filter (\<lambda>kv. fst kv \<noteq> ''file'') kvs))\<rparr>))\<rparr>))
       \<and> isl (fst (FlightPathServerPullDataOperator_execute self w))
       \<and> files (snd (FlightPathServerPullDataOperator_execute self w)) = files w"
proof -
  let ?r' = "r\<lparr>json_result := Inr (JObject (filter (\<lambda>kv. fst kv \<noteq> ''file'') kvs))\<rparr>"
  let ?w' = "w\<lparr>server := (\<lambda>rq. Inr ?r')\<rparr>"
  have init': "FlightPathServerHook_init (Some (pd_flightpath_server_conn_id self)) ?w' = Inr hook"
    using assms(1) by simp
  have server': "server ?w' (sent_request hook ''/find/get_file''
                   (Some (get_file_data (pd_project_name self) (pd_reference self)))) = Inr ?r'"
    by simp
  show ?thesis
  proof (cases "400 \<le> status_code r \<and> status_code r < 600")
    case True
    then have st': "400 \<le> status_code ?r' \<and> status_code ?r' < 600"
      by simp
    show ?thesis
      by (simp add: pull_data_execute_http_error [OF assms(1,2) True]
            pull_data_execute_http_error [OF init' server' st'])
  next
    case False
    then have st': "\<not> (400 \<le> status_code ?r' \<and> status_code ?r' < 600)"
      by simp
    have js': "json_result ?r' = Inr (JObject (filter (\<lambda>kv. fst kv \<noteq> ''file'') kvs))"
      by simp
    show ?thesis
      using assms(4,5)
      by (simp add: pull_data_execute_response [OF assms(1,2) False assms(3)]
            pull_data_execute_response [OF init' server' st' js'] Let_def)
  qed
qed

theorem falsy_file_same_as_missing_witness:
  \<open>fst (FlightPathServerPullDataOperator_execute test_pull_data
          (test_world (test_response 200 ''OK'' ''{"file": ""}''
             (Inr (JObject [(''file'', JString [])])))))
     = fst (FlightPathServerPullDataOperator_execute test_pull_data
          (test_world (test_response 200 ''OK'' ''{"file": ""}'' (Inr (JObject [])))))
   \<and> isl (fst (FlightPathServerPullDataOperator_execute test_pull_data
          (test_world (test_response 200 ''OK'' ''{"file": ""}''
             (Inr (JObject [(''file'', JString [])]))))))
   \<and> files (snd (FlightPathServerPullDataOperator_execute test_pull_data
          (test_world (test_response 200 ''OK'' ''{"file": ""}''
             (Inr (JObject [(''file'', JString [])]))))))
       ''/tmp/test_output.txt'' = None\<close>
proof -
  have upd: \<open>(test_world (test_response 200 ''OK'' ''{"file": ""}''
                 (Inr (JObject [(''file'', JString [])]))))
              \<lparr>server := (\<lambda>rq. Inr ((test_response 200 ''OK'' ''{"file": ""}''
                   (Inr (JObject [(''file'', JString [])])))
                   \<lparr>json_result := Inr (JObject (filter (\<lambda>kv. fst kv \<noteq> ''file'')
                        [(''file'', JString [])]))\<rparr>))\<rparr>
             = test_world (test_response 200 ''OK'' ''{"file": ""}'' (Inr (JObject [])))\<close>
    by (simp add: test_world_def test_response_def)
  have inst:
    \<open>fst (FlightPathServerPullDataOperator_execute test_pull_data
            (test_world (test_response 200 ''OK'' ''{"file": ""}''
               (Inr (JObject [(''file'', JString [])]))))) =
       fst (FlightPathServerPullDataOperator_execute test_pull_data
            ((test_world (test_response 200 ''OK'' ''{"file": ""}''
                 (Inr (JObject [(''file'', JString [])]))))
              \<lparr>server := (\<lambda>rq. Inr ((test_response 200 ''OK'' ''{"file": ""}''
                   (Inr (JObject [(''file'', JString [])])))
                   \<lparr>json_result := Inr (JObject (filter (\<lambda>kv. fst kv \<noteq> ''file'')
                        [(''file'', JString [])]))\<rparr>))\<rparr>))
     \<and> isl (fst (FlightPathServerPullDataOperator_execute test_pull_data
            (test_world (test_response 200 ''OK'' ''{"file": ""}''
               (Inr (JObject [(''file'', JString [])]))))))
     \<and> files (snd (FlightPathServerPullDataOperator_execute test_pull_data
            (test_world (test_response 200 ''OK'' ''{"file": ""}''
               (Inr (JObject [(''file'', JString [])])))))) =
         files (test_world (test_response 200 ''OK'' ''{"file": ""}''
               (Inr (JObject [(''file'', JString [])]))))\<close>
    by (rule falsy_file_same_as_missing
              [where hook = test_hook and kvs = "[(''file'', JString [])]"
                 and v = "JString []"])
       simp_all
  show ?thesis
    using inst unfolding upd by auto
qed

text \<open>
  C9 as stated concludes that a file without bytes is never written. A string of one
  blank is not empty, so the check of line 181 lets it pass; the decoder skips the blank
  and returns no bytes, and the operator writes an empty file.
\<close>

theorem zero_byte_file_counterexample:
  \<open>truthy (JString '' '')
   \<and> fst (FlightPathServerPullDataOperator_execute test_pull_data
          (test_world (test_response 200 ''OK'' ''{"file": " "}''
             (Inr (JObject [(''file'', JString '' '')])))))
     = Inr ''/tmp/test_output.txt''
   \<and> files (snd (FlightPathServerPullDataOperator_execute test_pull_data
          (test_world (test_response 200 ''OK'' ''{"file": " "}''
             (Inr (JObject [(''file'', JString '' '')]))))))
       ''/tmp/test_output.txt''
     = Some []\<close>
  by (simp add: pull_data_execute_response
        [where self = test_pull_data and hook = test_hook
           and w = \<open>test_world (test_response 200 ''OK'' ''{"file": " "}''
                      (Inr (JObject [(''file'', JString '' '')])))\<close>
           and r = \<open>test_response 200 ''OK'' ''{"file": " "}''
                      (Inr (JObject [(''file'', JString '' '')]))\<close>
           and kvs = "[(''file'', JString '' '')]"]
        Let_def b64decode_def table_a2b_base64_def)

end
